theory Spec2Isabelle
  imports Main "HOL-Library.Word"
begin

unbundle bit_operations_syntax

section \<open>Machine model\<close>

text \<open>
  \<^verbatim>\<open>mm.c\<close> is written for an LP64 little-endian machine: \<^verbatim>\<open>size_t\<close> and pointers are
  64-bit words, \<^verbatim>\<open>unsigned\<close> and \<^verbatim>\<open>int\<close> are 32-bit. Memory is a total map from 64-bit
  addresses to bytes; an access outside the arena is not trapped by the model.
\<close>

type_synonym addr = "64 word"
type_synonym u32 = "32 word"
type_synonym u64 = "64 word"
type_synonym memory = "addr \<Rightarrow> 8 word"

text \<open>The parameters of \<^verbatim>\<open>mm.c\<close>: WSIZE, MIN_SIZE, PAGESIZE, NO_LISTS.\<close>

definition WSIZE :: u64 where "WSIZE = 8"
definition MIN_SIZE :: u64 where "MIN_SIZE = 16"
definition PAGESIZE :: u32 where "PAGESIZE = 256"
definition NO_LISTS :: nat where "NO_LISTS = 11"

text \<open>\<^verbatim>\<open>GET_INT(p)\<close>, \<^verbatim>\<open>PUT_INT(p, val)\<close>: a 4-byte little-endian access.\<close>

definition GET_INT :: "memory \<Rightarrow> addr \<Rightarrow> u32" where
  "GET_INT m p = ucast (m p) OR push_bit 8 (ucast (m (p + 1)))
                 OR push_bit 16 (ucast (m (p + 2))) OR push_bit 24 (ucast (m (p + 3)))"

definition PUT_INT :: "memory \<Rightarrow> addr \<Rightarrow> u32 \<Rightarrow> memory" where
  "PUT_INT m p v = m(p := ucast v, p + 1 := ucast (drop_bit 8 v),
                     p + 2 := ucast (drop_bit 16 v), p + 3 := ucast (drop_bit 24 v))"

text \<open>\<^verbatim>\<open>GET(p)\<close>, \<^verbatim>\<open>PUT(p, val)\<close>: an 8-byte little-endian access.\<close>

definition GET :: "memory \<Rightarrow> addr \<Rightarrow> u64" where
  "GET m p = ucast (m p) OR push_bit 8 (ucast (m (p + 1)))
                 OR push_bit 16 (ucast (m (p + 2))) OR push_bit 24 (ucast (m (p + 3)))
                 OR push_bit 32 (ucast (m (p + 4))) OR push_bit 40 (ucast (m (p + 5)))
                 OR push_bit 48 (ucast (m (p + 6))) OR push_bit 56 (ucast (m (p + 7)))"

definition PUT :: "memory \<Rightarrow> addr \<Rightarrow> u64 \<Rightarrow> memory" where
  "PUT m p v = m(p := ucast v, p + 1 := ucast (drop_bit 8 v),
                 p + 2 := ucast (drop_bit 16 v), p + 3 := ucast (drop_bit 24 v),
                 p + 4 := ucast (drop_bit 32 v), p + 5 := ucast (drop_bit 40 v),
                 p + 6 := ucast (drop_bit 48 v), p + 7 := ucast (drop_bit 56 v))"

text \<open>\<^verbatim>\<open>PACK(size, alloc)\<close> is \<^verbatim>\<open>(unsigned)((size) | (alloc))\<close>.\<close>

definition PACK :: "u64 \<Rightarrow> u64 \<Rightarrow> u32" where
  "PACK sz alloc = ucast (sz OR alloc)"

section \<open>Pointer packing\<close>

text \<open>\<^verbatim>\<open>SPLIT\<close> is \<^verbatim>\<open>(((size_t)1<<32)) - 1\<close>; \<^verbatim>\<open>INDEX\<close> is passed as \<open>idx\<close>.\<close>

definition SPLIT :: u64 where "SPLIT = push_bit 32 1 - 1"

definition SEE_NEXT :: "u64 \<Rightarrow> u64" where "SEE_NEXT p = p AND SPLIT"
definition SEE_PREV :: "u64 \<Rightarrow> u64" where "SEE_PREV p = drop_bit 32 (p AND NOT SPLIT)"

definition NEXTP :: "addr \<Rightarrow> u64 \<Rightarrow> addr" where
  "NEXTP idx p = (if SEE_NEXT p \<noteq> 0 then idx + SEE_NEXT p else 0)"
definition PREVP :: "addr \<Rightarrow> u64 \<Rightarrow> addr" where
  "PREVP idx p = (if SEE_PREV p \<noteq> 0 then idx + SEE_PREV p else 0)"

text \<open>
  The macros below take their pointer argument as an expression: \<^verbatim>\<open>PUT_PREV(dest, val)\<close>
  expands to \<^verbatim>\<open>CLEAR_PREV(dest); PUT_PPTR(dest, val)\<close>, so \<^verbatim>\<open>dest\<close> and \<^verbatim>\<open>val\<close> are
  evaluated again in the memory the first statement leaves.
\<close>

type_synonym 'a expr = "memory \<Rightarrow> 'a"

definition CLEAR_NEXT :: "addr expr \<Rightarrow> memory \<Rightarrow> memory" where
  "CLEAR_NEXT dest m = PUT m (dest m) (GET m (dest m) AND NOT SPLIT)"
definition CLEAR_PREV :: "addr expr \<Rightarrow> memory \<Rightarrow> memory" where
  "CLEAR_PREV dest m = PUT m (dest m) (GET m (dest m) AND SPLIT)"

definition PUT_NPTR :: "addr \<Rightarrow> addr expr \<Rightarrow> u64 expr \<Rightarrow> memory \<Rightarrow> memory" where
  "PUT_NPTR idx dest val m = PUT m (dest m) (GET m (dest m) OR (val m - idx))"
definition PUT_PPTR :: "addr \<Rightarrow> addr expr \<Rightarrow> u64 expr \<Rightarrow> memory \<Rightarrow> memory" where
  "PUT_PPTR idx dest val m = PUT m (dest m) (GET m (dest m) OR push_bit 32 (val m - idx))"

definition PUT_PREV :: "addr \<Rightarrow> addr expr \<Rightarrow> u64 expr \<Rightarrow> memory \<Rightarrow> memory" where
  "PUT_PREV idx dest val m = PUT_PPTR idx dest val (CLEAR_PREV dest m)"
definition PUT_NEXT :: "addr \<Rightarrow> addr expr \<Rightarrow> u64 expr \<Rightarrow> memory \<Rightarrow> memory" where
  "PUT_NEXT idx dest val m = PUT_NPTR idx dest val (CLEAR_NEXT dest m)"

section \<open>Boundary tags\<close>

definition FULL_HDR :: "addr \<Rightarrow> addr" where "FULL_HDR bp = bp - WSIZE"
definition PREV :: "addr \<Rightarrow> addr" where "PREV p = p + 4"
definition THIS :: "addr \<Rightarrow> addr" where "THIS p = p"

definition GET_SIZE :: "memory \<Rightarrow> addr \<Rightarrow> u32" where
  "GET_SIZE m p = GET_INT m p AND NOT 7"
definition GET_ALLOC :: "memory \<Rightarrow> addr \<Rightarrow> u32" where
  "GET_ALLOC m p = GET_INT m p AND 1"

definition HDR :: "addr \<Rightarrow> addr" where "HDR bp = THIS (FULL_HDR bp)"
definition FTR :: "memory \<Rightarrow> addr \<Rightarrow> addr" where
  "FTR m bp = PREV (bp + ucast (GET_SIZE m (HDR bp)) - WSIZE)"
definition NEXT_BLK :: "memory \<Rightarrow> addr \<Rightarrow> addr" where
  "NEXT_BLK m bp = bp + ucast (GET_SIZE m (THIS (FULL_HDR bp)))"
definition PREV_BLK :: "memory \<Rightarrow> addr \<Rightarrow> addr" where
  "PREV_BLK m bp = bp - ucast (GET_SIZE m (PREV (FULL_HDR bp)))"

text \<open>\<^verbatim>\<open>ALIGN(p)\<close> is \<^verbatim>\<open>(((size_t)(p) + (ALIGNMENT - 1)) & ~0x7)\<close>: the mask \<^verbatim>\<open>~0x7\<close> is an
  \<^verbatim>\<open>int\<close>, sign-extended to 64 bits.\<close>

definition ALIGN :: "u64 \<Rightarrow> u64" where
  "ALIGN p = (p + 7) AND NOT 7"

section \<open>Size classes\<close>

text \<open>\<^verbatim>\<open>find_size_bin(int asize)\<close>: the argument is the C \<^verbatim>\<open>int\<close> as a mathematical integer
  (callers convert with \<open>sint\<close>); \<^verbatim>\<open>asize>>1\<close> is only reached for \<open>asize > 63\<close>, where
  it halves.\<close>

function find_size_bin_loop :: "int \<Rightarrow> nat \<Rightarrow> nat" where
  "find_size_bin_loop asize size_bin =
     (if asize > 64 - 1 then find_size_bin_loop (asize div 2) (size_bin + 1) else size_bin)"
  by pat_completeness auto
termination
  by (relation "measure (\<lambda>(asize, size_bin). nat asize)") auto

declare find_size_bin_loop.simps [simp del]

definition find_size_bin :: "int \<Rightarrow> nat" where
  "find_size_bin asize =
     (let size_bin = find_size_bin_loop asize 0
      in if size_bin \<ge> NO_LISTS - 1 then NO_LISTS - 1 else size_bin)"

text \<open>The conversion of an \<^verbatim>\<open>unsigned\<close> or \<^verbatim>\<open>size_t\<close> argument to \<^verbatim>\<open>int\<close>.\<close>

definition int_of_u32 :: "u32 \<Rightarrow> int" where "int_of_u32 x = sint x"
definition int_of_u64 :: "u64 \<Rightarrow> int" where "int_of_u64 x = sint (ucast x :: u32)"

section \<open>Request size adjustment\<close>

text \<open>The first lines of \<^verbatim>\<open>malloc\<close> and \<^verbatim>\<open>realloc\<close>: \<^verbatim>\<open>unsigned asize\<close> receives
  a \<^verbatim>\<open>size_t\<close> expression.\<close>

definition adjust_size :: "u64 \<Rightarrow> u32" where
  "adjust_size sz = (if sz \<le> WSIZE then ucast (WSIZE + WSIZE) else ucast (ALIGN (sz + WSIZE)))"

section \<open>The arena\<close>

text \<open>The globals: the bytes of memory, \<^verbatim>\<open>static char *heap\<close>, and the two pointers of
  the memory system (\<^verbatim>\<open>memlib\<close>) that \<^verbatim>\<open>mem_sbrk\<close> works on.\<close>

record state =
  mem :: memory
  heap :: addr
  mem_brk :: addr
  mem_max_addr :: addr

text \<open>Modelled from the spec: \<^verbatim>\<open>mem_sbrk\<close> of \<^verbatim>\<open>memlib.c\<close>, which is not among the sources.
  It is the append-only growth primitive: it extends the arena by \<open>incr\<close> bytes and
  returns the old end of the arena, moving nothing; it fails, returning \<^verbatim>\<open>(void *)-1\<close>, on a
  negative increment or when the region is exhausted. Its parameter is an \<^verbatim>\<open>int\<close>.\<close>

definition mem_sbrk :: "u32 \<Rightarrow> state \<Rightarrow> addr \<times> state" where
  "mem_sbrk incr st =
     (if incr <s 0 \<or> unat (mem_brk st) + unat incr > unat (mem_max_addr st) then (- 1, st)
      else (mem_brk st, st\<lparr>mem_brk := mem_brk st + ucast incr\<rparr>))"

definition FULL_HEAP :: "state \<Rightarrow> addr" where
  "FULL_HEAP st = heap st - (of_nat NO_LISTS + 1) * WSIZE"
definition INDEX :: "state \<Rightarrow> u64" where
  "INDEX st = FULL_HEAP st"

definition free_list_of :: "state \<Rightarrow> nat \<Rightarrow> addr" where
  "free_list_of st x = FULL_HEAP st + of_nat x * WSIZE"

section \<open>Free lists\<close>

definition lifo_insert :: "addr \<Rightarrow> state \<Rightarrow> state" where
  "lifo_insert bp st =
     (let m = mem st; idx = INDEX st;
          size_bin = find_size_bin (int_of_u32 (GET_SIZE m (HDR bp)));
          free_list = free_list_of st size_bin;
          m1 = (if GET m free_list \<noteq> 0
                then PUT_PREV idx (\<lambda>m. GET m free_list) (\<lambda>m. bp)
                       (PUT_NEXT idx (\<lambda>m. bp) (\<lambda>m. GET m free_list) m)
                else CLEAR_NEXT (\<lambda>m. bp) m);
          m2 = PUT m1 free_list bp;
          m3 = CLEAR_PREV (\<lambda>m. bp) m2
      in st\<lparr>mem := m3\<rparr>)"

definition remove_from_list :: "addr \<Rightarrow> state \<Rightarrow> state" where
  "remove_from_list bp st =
     (let m = mem st; idx = INDEX st;
          size_bin = find_size_bin (int_of_u32 (GET_SIZE m (HDR bp)));
          free_list = free_list_of st size_bin;
          m1 = (if PREVP idx (GET m bp) \<noteq> 0 then
                  (if NEXTP idx (GET m bp) \<noteq> 0 then
                     PUT_PREV idx (\<lambda>m. NEXTP idx (GET m bp)) (\<lambda>m. PREVP idx (GET m bp))
                       (PUT_NEXT idx (\<lambda>m. PREVP idx (GET m bp)) (\<lambda>m. NEXTP idx (GET m bp)) m)
                   else CLEAR_NEXT (\<lambda>m. PREVP idx (GET m bp)) m)
                else
                  (let m' = PUT m free_list (NEXTP idx (GET m bp))
                   in if NEXTP idx (GET m' bp) \<noteq> 0
                      then CLEAR_PREV (\<lambda>m. NEXTP idx (GET m bp)) m' else m'))
      in st\<lparr>mem := m1\<rparr>)"

section \<open>Coalescing and placement\<close>

definition coalesce :: "addr \<Rightarrow> state \<Rightarrow> addr \<times> state" where
  "coalesce bp st =
     (let m = mem st;
          prev_alloc = GET_ALLOC m (FTR m (PREV_BLK m bp));
          next_alloc = GET_ALLOC m (HDR (NEXT_BLK m bp));
          sz = GET_SIZE m (HDR bp)
      in if prev_alloc \<noteq> 0 \<and> next_alloc \<noteq> 0 then (bp, lifo_insert bp st)
         else if prev_alloc \<noteq> 0 \<and> next_alloc = 0 then
           (let st1 = remove_from_list (NEXT_BLK m bp) st; m1 = mem st1;
                sz = sz + GET_SIZE m1 (HDR (NEXT_BLK m1 bp));
                m2 = PUT_INT m1 (HDR bp) (PACK (ucast sz) 0);
                m3 = PUT_INT m2 (FTR m2 bp) (PACK (ucast sz) 0)
            in (bp, lifo_insert bp (st1\<lparr>mem := m3\<rparr>)))
         else if prev_alloc = 0 \<and> next_alloc \<noteq> 0 then
           (let st1 = remove_from_list (PREV_BLK m bp) st; m1 = mem st1;
                sz = sz + GET_SIZE m1 (HDR (PREV_BLK m1 bp));
                m2 = PUT_INT m1 (HDR (PREV_BLK m1 bp)) (PACK (ucast sz) 0);
                m3 = PUT_INT m2 (FTR m2 bp) (PACK (ucast sz) 0);
                st3 = lifo_insert (PREV_BLK m3 bp) (st1\<lparr>mem := m3\<rparr>)
            in (PREV_BLK (mem st3) bp, st3))
         else
           (let st1 = remove_from_list (PREV_BLK m bp) st;
                st2 = remove_from_list (NEXT_BLK (mem st1) bp) st1; m2 = mem st2;
                sz = sz + (GET_SIZE m2 (HDR (PREV_BLK m2 bp))
                            + GET_SIZE m2 (FTR m2 (NEXT_BLK m2 bp)));
                m3 = PUT_INT m2 (HDR (PREV_BLK m2 bp)) (PACK (ucast sz) 0);
                m4 = PUT_INT m3 (FTR m3 (NEXT_BLK m3 bp)) (PACK (ucast sz) 0);
                st4 = lifo_insert (PREV_BLK m4 bp) (st2\<lparr>mem := m4\<rparr>)
            in (PREV_BLK (mem st4) bp, st4)))"

definition place :: "addr \<Rightarrow> u64 \<Rightarrow> state \<Rightarrow> state" where
  "place bp asize st =
     (let init_size = (ucast (GET_SIZE (mem st) (HDR bp)) :: u64)
      in if init_size - asize \<ge> MIN_SIZE then
           (let st1 = remove_from_list bp st; m1 = mem st1;
                m2 = PUT_INT m1 (HDR bp) (PACK asize 1);
                m3 = PUT_INT m2 (FTR m2 bp) (PACK asize 1);
                bp' = NEXT_BLK m3 bp;
                m4 = PUT_INT m3 (HDR bp') (PACK (init_size - asize) 0);
                m5 = PUT_INT m4 (FTR m4 bp') (PACK (init_size - asize) 0)
            in lifo_insert bp' (st1\<lparr>mem := m5\<rparr>))
         else
           (let st1 = remove_from_list bp st; m1 = mem st1;
                m2 = PUT_INT m1 (HDR bp) (PACK init_size 1);
                m3 = PUT_INT m2 (FTR m2 bp) (PACK init_size 1)
            in st1\<lparr>mem := m3\<rparr>))"

section \<open>Growing the arena\<close>

definition grow_heap :: "u64 \<Rightarrow> state \<Rightarrow> addr \<times> state" where
  "grow_heap words st =
     (let sz = (ucast (if words mod 2 \<noteq> 0 then (words + 1) * WSIZE else words * WSIZE) :: u32);
          (bp, st1) = mem_sbrk sz st
      in if bp <s 0 then (0, st1)
         else
           (let m1 = PUT_INT (mem st1) (HDR bp) (PACK (ucast sz) 0);
                m2 = PUT_INT m1 (FTR m1 bp) (PACK (ucast sz) 0);
                m3 = PUT_INT m2 (HDR (NEXT_BLK m2 bp)) (PACK 0 1)
            in coalesce bp (st1\<lparr>mem := m3\<rparr>)))"

section \<open>Searching for a fit\<close>

text \<open>The two \<^verbatim>\<open>do ... while (bp != 0)\<close> loops of \<^verbatim>\<open>find_fit\<close> follow the links stored in
  memory; on a cyclic list they do not return, which is the value \<open>None\<close>.
  \<^verbatim>\<open>best_fit = (1<<31)\<close> is the \<^verbatim>\<open>int\<close> \<open>-2\<^sup>3\<^sup>1\<close> converted to \<^verbatim>\<open>size_t\<close>.\<close>

definition best_fit_init :: u64 where
  "best_fit_init = - (push_bit 31 1)"

partial_function (option) best_fit_loop ::
  "addr \<Rightarrow> memory \<Rightarrow> u64 \<Rightarrow> addr \<Rightarrow> addr \<times> u64 \<Rightarrow> (addr \<times> u64) option" where
  "best_fit_loop idx m asize bp best =
     (let best' = (if asize \<le> ucast (GET_SIZE m (HDR bp)) \<and> ucast (GET_SIZE m (HDR bp)) \<le> snd best
                   then (bp, ucast (GET_SIZE m (HDR bp))) else best);
          bp' = NEXTP idx (GET m bp)
      in if bp' \<noteq> 0 then best_fit_loop idx m asize bp' best' else Some best')"

text \<open>The first-fit loop: \<open>Some (Some bp)\<close> is the early \<^verbatim>\<open>return bp\<close>, \<open>Some None\<close> the
  end of the list.\<close>

partial_function (option) first_fit_loop ::
  "addr \<Rightarrow> memory \<Rightarrow> u64 \<Rightarrow> addr \<Rightarrow> addr option option" where
  "first_fit_loop idx m asize bp =
     (if asize \<le> ucast (GET_SIZE m (HDR bp)) then Some (Some bp)
      else (let bp' = NEXTP idx (GET m bp)
            in if bp' \<noteq> 0 then first_fit_loop idx m asize bp' else Some None))"

function find_fit_from :: "state \<Rightarrow> u64 \<Rightarrow> nat \<Rightarrow> addr \<times> u64 \<Rightarrow> addr option" where
  "find_fit_from st asize x best =
     (if x < NO_LISTS then
        (let free_list = free_list_of st x in
         if GET (mem st) free_list = 0 then find_fit_from st asize (x + 1) best
         else if x = NO_LISTS - 1 then
           (case best_fit_loop (INDEX st) (mem st) asize (GET (mem st) free_list) best of
              None \<Rightarrow> None
            | Some best' \<Rightarrow> find_fit_from st asize (x + 1) best')
         else
           (case first_fit_loop (INDEX st) (mem st) asize (GET (mem st) free_list) of
              None \<Rightarrow> None
            | Some (Some bp) \<Rightarrow> Some bp
            | Some None \<Rightarrow> find_fit_from st asize (x + 1) best))
      else Some (fst best))"
  by pat_completeness auto
termination
  by (relation "measure (\<lambda>(st, asize, x, best). NO_LISTS - x)") auto

declare find_fit_from.simps [simp del]

definition find_fit :: "u64 \<Rightarrow> state \<Rightarrow> addr option" where
  "find_fit asize st = find_fit_from st asize (find_size_bin (int_of_u64 asize)) (0, best_fit_init)"

section \<open>The allocator\<close>

text \<open>\<open>None\<close> is a call that does not return; \<^verbatim>\<open>NULL\<close> is the address 0.\<close>

definition malloc :: "u64 \<Rightarrow> state \<Rightarrow> (addr \<times> state) option" where
  "malloc sz st =
     (if sz \<le> 0 then Some (0, st)
      else
        (let asize = adjust_size sz in
         case find_fit (ucast asize) st of
           None \<Rightarrow> None
         | Some bp \<Rightarrow>
             if bp \<noteq> 0 then Some (bp, place bp (ucast asize) st)
             else
               (let extendsize = (if asize > PAGESIZE then asize else PAGESIZE);
                    (bp, st1) = grow_heap (ucast (extendsize div 8)) st
                in if bp = 0 then Some (0, st1)
                   else Some (bp, place bp (ucast asize) st1))))"

definition free :: "addr \<Rightarrow> state \<Rightarrow> state" where
  "free bp st =
     (if bp = 0 then st
      else
        (let m = mem st;
             sz = (ucast (GET_SIZE m (HDR bp)) :: u64);
             m1 = PUT_INT m (HDR bp) (PACK sz 0);
             m2 = PUT_INT m1 (FTR m1 bp) (PACK sz 0)
         in snd (coalesce bp (st\<lparr>mem := m2\<rparr>))))"

text \<open>\<^verbatim>\<open>memcpy(dst, src, n)\<close>: every destination byte receives the source byte as it was
  before the call. (C leaves the overlapping case undefined; a copy in ascending address order
  gives this result whenever \<open>dst\<close> is not above \<open>src\<close>.)\<close>

definition memcpy :: "addr \<Rightarrow> addr \<Rightarrow> u64 \<Rightarrow> memory \<Rightarrow> memory" where
  "memcpy dst src n m = (\<lambda>a. if a - dst < n then m (src + (a - dst)) else m a)"

definition realloc :: "addr \<Rightarrow> u64 \<Rightarrow> state \<Rightarrow> (addr \<times> state) option" where
  "realloc oldptr sz st =
     (let asize = adjust_size sz in
      if sz = 0 then Some (0, free oldptr st)
      else if oldptr = 0 then malloc sz st
      else
        (let buffer = GET (mem st) oldptr;
             oldsize = GET_SIZE (mem st) (HDR oldptr);
             st1 = free oldptr st
         in case find_fit (ucast asize) st1 of
              None \<Rightarrow> None
            | Some bp0 \<Rightarrow>
                (let (bp, st2) =
                       (if bp0 = 0
                        then grow_heap (ucast ((if asize > PAGESIZE then asize else PAGESIZE) div 8)) st1
                        else (bp0, st1))
                 in if bp0 = 0 \<and> bp = 0 then Some (0, st2)
                    else
                      (let oldsize = (if asize < oldsize then asize else oldsize);
                           oldsize = oldsize - 8;
                           m3 = memcpy (bp + WSIZE) (oldptr + WSIZE) (ucast (oldsize - 8)) (mem st2);
                           st4 = place bp (ucast asize) (st2\<lparr>mem := m3\<rparr>);
                           m5 = PUT (mem st4) bp buffer
                       in Some (bp, st4\<lparr>mem := m5\<rparr>)))))"

text \<open>The zero-filling loop of \<^verbatim>\<open>calloc\<close>: \<^verbatim>\<open>i\<close> is an \<^verbatim>\<open>unsigned\<close> compared with the
  \<^verbatim>\<open>size_t\<close> product.\<close>

partial_function (option) calloc_loop :: "addr \<Rightarrow> u64 \<Rightarrow> u32 \<Rightarrow> memory \<Rightarrow> memory option" where
  "calloc_loop bp n i m =
     (if ucast i < n then calloc_loop bp n (i + 4) (PUT_INT m (bp + ucast i) 0) else Some m)"

definition calloc :: "u64 \<Rightarrow> u64 \<Rightarrow> state \<Rightarrow> (addr \<times> state) option" where
  "calloc nmemb sz st =
     (case malloc (nmemb * sz) st of
        None \<Rightarrow> None
      | Some (bp, st1) \<Rightarrow>
          if bp \<noteq> 0 then
            (case calloc_loop bp (nmemb * sz) 0 (mem st1) of
               None \<Rightarrow> None
             | Some m \<Rightarrow> Some (0, st1\<lparr>mem := m\<rparr>))
          else Some (0, st1))"

section \<open>Initialisation\<close>

text \<open>\<^verbatim>\<open>mm_init\<close> returns \<open>-1\<close> on error and \<open>0\<close> on success.\<close>

fun init_lists :: "nat \<Rightarrow> state \<Rightarrow> state" where
  "init_lists 0 st = st"
| "init_lists (Suc n) st =
     (let st' = init_lists n st in st'\<lparr>mem := PUT (mem st') (free_list_of st' n) 0\<rparr>)"

definition mm_init :: "state \<Rightarrow> int \<times> state" where
  "mm_init st =
     (let (h, st1) = mem_sbrk (ucast ((3 + of_nat NO_LISTS) * WSIZE)) st
      in if h = 0 then (- 1, st1\<lparr>heap := h\<rparr>)
         else
           (let m1 = PUT (mem st1) h (ucast (PACK 0 0));
                m2 = PUT_INT m1 (THIS (h + (of_nat NO_LISTS + 1) * WSIZE)) (PACK WSIZE 1);
                m3 = PUT_INT m2 (PREV (h + (of_nat NO_LISTS + 2) * WSIZE)) (PACK WSIZE 1);
                m4 = PUT_INT m3 (THIS (h + (of_nat NO_LISTS + 2) * WSIZE)) (PACK 0 1);
                st2 = init_lists NO_LISTS (st1\<lparr>mem := m4, heap := h + (2 + of_nat NO_LISTS) * WSIZE\<rparr>);
                (bp, st3) = grow_heap (ucast (PAGESIZE div 8)) st2
            in if bp = 0 then (- 1, st3) else (0, st3)))"

section \<open>Concrete arenas\<close>

text \<open>A memory written as a list of 4-byte words over a background, the latest write first.
  The examples below run the allocator on such memories.\<close>

fun mem_of :: "(addr \<times> u32) list \<Rightarrow> memory \<Rightarrow> memory" where
  "mem_of [] b = b"
| "mem_of ((p, v) # l) b = PUT_INT (mem_of l b) p v"

text \<open>A fresh memory system: zeroed memory, the region from \<open>0x1000\<close> to \<open>0x100000\<close>.\<close>

definition st0 :: state where
  "st0 = \<lparr>mem = mem_of [] (\<lambda>_. 0), heap = 0, mem_brk = 0x1000, mem_max_addr = 0x100000\<rparr>"

text \<open>The arena that \<^verbatim>\<open>mm_init\<close> builds in the fresh memory system: the 11 list heads
  from \<open>0x1008\<close>, the prologue at \<open>0x1060\<close>, one free block of 256 bytes with payload
  address \<open>0x1070\<close> (4208), entered in list 3, and the epilogue header at \<open>0x1168\<close>.\<close>

definition st_init :: state where
  "st_init = \<lparr>mem = mem_of
             [(4212, 0), (4208, 0), (4132, 0), (4128, 4208), (4456, 1),
              (4460, 256), (4200, 256), (4188, 0), (4184, 0), (4180, 0),
              (4176, 0), (4172, 0), (4168, 0), (4164, 0), (4160, 0),
              (4156, 0), (4152, 0), (4148, 0), (4144, 0), (4140, 0),
              (4136, 0), (4124, 0), (4120, 0), (4116, 0), (4112, 0),
              (4108, 0), (4104, 0), (4204, 9), (4192, 9), (4100, 0),
              (4096, 0)] (\<lambda>_. 0),
            heap = 4200, mem_brk = 4464, mem_max_addr = 1048576\<rparr>"

section \<open>Memory accesses\<close>

lemma addr_neq [simp]:
  "p + 1 \<noteq> (p::addr)" "p + 2 \<noteq> p" "p + 3 \<noteq> p" "p + 4 \<noteq> p" "p + 5 \<noteq> p" "p + 6 \<noteq> p" "p + 7 \<noteq> p"
  by simp_all

lemma byte_bit32:
  "bit (push_bit k (ucast (ucast (drop_bit k v) :: 8 word)) :: u32) n
     \<longleftrightarrow> k \<le> n \<and> n < k + 8 \<and> bit (v :: u32) n"
  by (auto simp add: bit_simps dest: bit_imp_le_length)

lemma byte_bit32_0:
  "bit (ucast (ucast v :: 8 word) :: u32) n \<longleftrightarrow> n < 8 \<and> bit (v :: u32) n"
  by (auto simp add: bit_simps dest: bit_imp_le_length)

lemma bytes_u32:
  "ucast (ucast v :: 8 word) OR push_bit 8 (ucast (ucast (drop_bit 8 v) :: 8 word))
    OR push_bit 16 (ucast (ucast (drop_bit 16 v) :: 8 word))
    OR push_bit 24 (ucast (ucast (drop_bit 24 v) :: 8 word)) = (v :: u32)" (is "?l = v")
proof (rule bit_word_eqI)
  fix n assume n: "n < LENGTH(32)"
  show "bit ?l n = bit v n"
    unfolding bit_or_iff byte_bit32 byte_bit32_0 using n by (cases "bit v n") auto
qed

lemma byte_bit64:
  "bit (push_bit k (ucast (ucast (drop_bit k v) :: 8 word)) :: u64) n
     \<longleftrightarrow> k \<le> n \<and> n < k + 8 \<and> bit (v :: u64) n"
  by (auto simp add: bit_simps dest: bit_imp_le_length)

lemma byte_bit64_0:
  "bit (ucast (ucast v :: 8 word) :: u64) n \<longleftrightarrow> n < 8 \<and> bit (v :: u64) n"
  by (auto simp add: bit_simps dest: bit_imp_le_length)

lemma bytes_u64:
  "ucast (ucast v :: 8 word) OR push_bit 8 (ucast (ucast (drop_bit 8 v) :: 8 word))
    OR push_bit 16 (ucast (ucast (drop_bit 16 v) :: 8 word))
    OR push_bit 24 (ucast (ucast (drop_bit 24 v) :: 8 word))
    OR push_bit 32 (ucast (ucast (drop_bit 32 v) :: 8 word))
    OR push_bit 40 (ucast (ucast (drop_bit 40 v) :: 8 word))
    OR push_bit 48 (ucast (ucast (drop_bit 48 v) :: 8 word))
    OR push_bit 56 (ucast (ucast (drop_bit 56 v) :: 8 word)) = (v :: u64)" (is "?l = v")
proof (rule bit_word_eqI)
  fix n assume n: "n < LENGTH(64)"
  show "bit ?l n = bit v n"
    unfolding bit_or_iff byte_bit64 byte_bit64_0 using n by (cases "bit v n") auto
qed

lemma GET_INT_PUT_INT_same: "GET_INT (PUT_INT m p v) p = v"
  unfolding GET_INT_def PUT_INT_def by (simp add: bytes_u32)

lemma GET_PUT_same: "GET (PUT m p v) p = v"
  unfolding GET_def PUT_def by (simp add: bytes_u64)

text \<open>A 4-byte access touches the bytes \<open>a\<close> with \<open>a - p < 4\<close>; two accesses at least 4 bytes
  apart in both directions do not meet.\<close>

lemma small_diff:
  fixes x y :: addr
  assumes "x < 4" "y < 4" "4 \<le> x - y" "4 \<le> y - x"
  shows False
  using assms by unat_arith

lemma lt4_cases: "(x::addr) < 4 \<longleftrightarrow> x = 0 \<or> x = 1 \<or> x = 2 \<or> x = 3"
  by unat_arith

lemma PUT_INT_outside: "\<not> a - p < 4 \<Longrightarrow> PUT_INT m p v a = m a"
  by (auto simp: PUT_INT_def lt4_cases)

lemma GET_INT_cong: "(\<And>a. a - q < 4 \<Longrightarrow> m a = m' a) \<Longrightarrow> GET_INT m q = GET_INT m' q"
  by (simp add: GET_INT_def)

lemma GET_INT_PUT_INT_disj:
  assumes "4 \<le> q - p" "4 \<le> p - q"
  shows "GET_INT (PUT_INT m p v) q = GET_INT m q"
proof (rule GET_INT_cong)
  fix a assume a: "a - q < 4"
  have "\<not> a - p < 4"
  proof
    assume "a - p < 4"
    with a show False using small_diff[of "a - p" "a - q"] assms by simp
  qed
  then show "PUT_INT m p v a = m a" by (rule PUT_INT_outside)
qed

text \<open>An 8-byte access is two 4-byte accesses, the low half at the lower address.\<close>

lemma byte_lt8: "bit (b :: 8 word) k \<Longrightarrow> k < 8"
  using bit_imp_le_length[of b k] by simp

lemma ucast_push_byte:
  "k \<le> 24 \<Longrightarrow> (ucast (push_bit k (ucast (b :: 8 word)) :: u32) :: u64) = push_bit k (ucast b)"
  by (rule bit_word_eqI) (auto simp add: bit_simps dest: byte_lt8)

lemma ucast_byte: "(ucast (ucast (b :: 8 word) :: u32) :: u64) = ucast b"
  by (rule bit_word_eqI) (auto simp add: bit_simps dest: byte_lt8)

lemma GET_halves: "GET m p = ucast (GET_INT m p) OR push_bit 32 (ucast (GET_INT m (p + 4)))"
  unfolding GET_def GET_INT_def
  by (simp add: unsigned_or_eq ucast_push_byte ucast_byte add.assoc or.assoc)

lemma ucast_drop_low:
  "k \<le> 24 \<Longrightarrow> (ucast (drop_bit k (ucast (v::u64) :: u32)) :: 8 word) = ucast (drop_bit k v)"
  by (rule bit_word_eqI) (auto simp add: bit_simps)

lemma ucast_low: "(ucast (ucast (v::u64) :: u32) :: 8 word) = ucast v"
  by (rule bit_word_eqI) (auto simp add: bit_simps)

lemma ucast_drop_high:
  "k \<le> 24 \<Longrightarrow> (ucast (drop_bit k (ucast (drop_bit 32 (v::u64)) :: u32)) :: 8 word)
     = ucast (drop_bit (32 + k) v)"
  by (rule bit_word_eqI) (auto simp add: bit_simps add.assoc)

lemma PUT_halves: "PUT m p v = PUT_INT (PUT_INT m p (ucast v)) (p + 4) (ucast (drop_bit 32 v))"
  unfolding PUT_def PUT_INT_def
  using ucast_drop_high[of 0 v]
  by (simp add: ucast_drop_low ucast_low ucast_drop_high add.assoc)

lemma in_range4: "a - p < 4 \<longleftrightarrow> a = p \<or> a = p + 1 \<or> a = p + 2 \<or> a = p + 3" for a p :: addr
  unfolding lt4_cases by (auto simp: diff_eq_eq add.commute)

lemma PUT_INT_inside: "a - p < 4 \<Longrightarrow> PUT_INT m p v a = PUT_INT m' p v a"
  unfolding in_range4 by (auto simp: PUT_INT_def)

text \<open>Reading and writing a memory given as a list, for evaluation.\<close>

lemma mem_of_filter_outside:
  "\<not> a - p < 4 \<Longrightarrow> mem_of (filter (\<lambda>e. fst e \<noteq> p) l) b a = mem_of l b a"
proof (induction l)
  case Nil
  then show ?case by simp
next
  case (Cons e l)
  obtain q w where e: "e = (q, w)" by (cases e)
  show ?case
  proof (cases "q = p")
    case True
    have "mem_of (e # l) b a = mem_of l b a"
      unfolding e True mem_of.simps using Cons.prems by (rule PUT_INT_outside)
    then show ?thesis using Cons e True by simp
  next
    case False
    show ?thesis
    proof (cases "a - q < 4")
      case True
      have "PUT_INT (mem_of (filter (\<lambda>e. fst e \<noteq> p) l) b) q w a = PUT_INT (mem_of l b) q w a"
        using True by (rule PUT_INT_inside)
      then show ?thesis using False e by simp
    next
      case F2: False
      have "PUT_INT (mem_of (filter (\<lambda>e. fst e \<noteq> p) l) b) q w a = mem_of (filter (\<lambda>e. fst e \<noteq> p) l) b a"
        "PUT_INT (mem_of l b) q w a = mem_of l b a"
        using F2 by (rule PUT_INT_outside)+
      then show ?thesis using False e Cons by simp
    qed
  qed
qed

lemma PUT_INT_mem_of: "PUT_INT (mem_of l b) p v = mem_of ((p, v) # filter (\<lambda>e. fst e \<noteq> p) l) b"
proof
  fix a
  show "PUT_INT (mem_of l b) p v a = mem_of ((p, v) # filter (\<lambda>e. fst e \<noteq> p) l) b a"
  proof (cases "a - p < 4")
    case True
    then have "PUT_INT (mem_of l b) p v a = PUT_INT (mem_of (filter (\<lambda>e. fst e \<noteq> p) l) b) p v a"
      by (rule PUT_INT_inside)
    then show ?thesis by simp
  next
    case False
    have "PUT_INT (mem_of l b) p v a = mem_of l b a"
      "PUT_INT (mem_of (filter (\<lambda>e. fst e \<noteq> p) l) b) p v a = mem_of (filter (\<lambda>e. fst e \<noteq> p) l) b a"
      using False by (rule PUT_INT_outside)+
    then show ?thesis using mem_of_filter_outside[OF False] by simp
  qed
qed

lemma GET_INT_mem_of_same: "GET_INT (mem_of ((p, v) # l) b) p = v"
  by (simp add: GET_INT_PUT_INT_same)

lemma GET_INT_mem_of_other:
  "4 \<le> q - p \<Longrightarrow> 4 \<le> p - q \<Longrightarrow> GET_INT (mem_of ((p, v) # l) b) q = GET_INT (mem_of l b) q"
  by (simp add: GET_INT_PUT_INT_disj)

lemma GET_INT_mem_of_Nil: "GET_INT (mem_of [] (\<lambda>_. 0)) q = 0"
  by (simp add: GET_INT_def)

declare mem_of.simps [simp del]

lemma init_lists_numeral:
  "init_lists (numeral k) st =
     (let st' = init_lists (pred_numeral k) st
      in st'\<lparr>mem := PUT (mem st') (free_list_of st' (pred_numeral k)) 0\<rparr>)"
  by (simp add: numeral_eq_Suc)

lemma find_size_bin_loop_eval:
  "63 < a \<Longrightarrow> find_size_bin_loop a b = find_size_bin_loop (a div 2) (b + 1)"
  "a \<le> 63 \<Longrightarrow> find_size_bin_loop a b = b"
  by (subst find_size_bin_loop.simps, simp)+

lemma find_fit_from_eval:
  "\<not> x < NO_LISTS \<Longrightarrow> find_fit_from st asize x best = Some (fst best)"
  "x < NO_LISTS \<Longrightarrow> find_fit_from st asize x best =
     (let free_list = free_list_of st x in
         if GET (mem st) free_list = 0 then find_fit_from st asize (x + 1) best
         else if x = NO_LISTS - 1 then
           (case best_fit_loop (INDEX st) (mem st) asize (GET (mem st) free_list) best of
              None \<Rightarrow> None
            | Some best' \<Rightarrow> find_fit_from st asize (x + 1) best')
         else
           (case first_fit_loop (INDEX st) (mem st) asize (GET (mem st) free_list) of
              None \<Rightarrow> None
            | Some (Some bp) \<Rightarrow> Some bp
            | Some None \<Rightarrow> find_fit_from st asize (x + 1) best))"
  by (subst find_fit_from.simps, simp)+

lemmas macro_defs = PUT_NEXT_def PUT_PREV_def PUT_NPTR_def PUT_PPTR_def CLEAR_NEXT_def CLEAR_PREV_def
  HDR_def FTR_def NEXT_BLK_def PREV_BLK_def FULL_HDR_def THIS_def PREV_def GET_SIZE_def GET_ALLOC_def
  PACK_def WSIZE_def MIN_SIZE_def PAGESIZE_def NO_LISTS_def FULL_HEAP_def INDEX_def free_list_of_def
  NEXTP_def PREVP_def SEE_NEXT_def SEE_PREV_def SPLIT_def best_fit_init_def

lemmas fn_defs = mm_init_def grow_heap_def coalesce_def lifo_insert_def remove_from_list_def place_def
  malloc_def free_def realloc_def calloc_def find_fit_def adjust_size_def ALIGN_def mem_sbrk_def
  int_of_u32_def int_of_u64_def find_size_bin_def

lemmas mem_eval = GET_halves PUT_halves PUT_INT_mem_of GET_INT_mem_of_same GET_INT_mem_of_other
  GET_INT_mem_of_Nil

lemmas loop_eval = find_size_bin_loop_eval find_fit_from_eval first_fit_loop.simps best_fit_loop.simps
  calloc_loop.simps init_lists_numeral

lemmas eval = fn_defs macro_defs mem_eval loop_eval Let_def word_sless_alt

lemmas eval_cong = let_weak_cong prod.case_cong_weak option.case_cong_weak

section \<open>Properties of the pointer packer\<close>

lemma SPLIT_mask: "SPLIT = mask 32"
  by (simp add: SPLIT_def mask_eq_exp_minus_1)

lemma lt32_bit: "d < 4294967296 \<Longrightarrow> bit (d::u64) n \<Longrightarrow> n < 32"
  using less_mask_eq[of d 32] bit_and_iff[of d "mask 32" n] by (simp add: bit_simps)

lemma bit_hi: "bit (w::u64) (32 + n) \<Longrightarrow> n < 32"
  using bit_imp_le_length[of w "32 + n"] by simp

lemma take_put_next: "d < 2^32 \<Longrightarrow> take_bit 32 ((w AND NOT SPLIT) OR d) = (d::u64)"
  unfolding SPLIT_mask
  by (rule bit_word_eqI) (auto simp add: bit_simps dest: lt32_bit)

lemma drop_put_next: "d < 2^32 \<Longrightarrow> drop_bit 32 ((w AND NOT SPLIT) OR d) = drop_bit 32 (w::u64)"
  unfolding SPLIT_mask
  by (rule bit_word_eqI) (auto simp add: bit_simps dest: lt32_bit bit_hi)

lemma drop_put_prev: "d < 2^32 \<Longrightarrow> drop_bit 32 ((w AND SPLIT) OR push_bit 32 d) = (d::u64)"
  unfolding SPLIT_mask
  by (rule bit_word_eqI) (auto simp add: bit_simps dest: lt32_bit bit_hi)

lemma take_put_prev: "take_bit 32 ((w AND SPLIT) OR push_bit 32 d) = take_bit 32 (w::u64)"
  unfolding SPLIT_mask
  by (rule bit_word_eqI) (auto simp add: bit_simps)

lemma SEE_NEXT_take: "SEE_NEXT w = take_bit 32 w"
  by (simp add: SEE_NEXT_def SPLIT_mask take_bit_eq_mask)

lemma SEE_PREV_drop: "SEE_PREV w = drop_bit 32 w"
  unfolding SEE_PREV_def SPLIT_mask
  by (rule bit_word_eqI) (auto simp add: bit_simps dest: bit_hi)

lemma PUT_NEXT_const:
  "GET (PUT_NEXT idx (\<lambda>m. dest) (\<lambda>m. p) m) dest = (GET m dest AND NOT SPLIT) OR (p - idx)"
  by (simp add: PUT_NEXT_def PUT_NPTR_def CLEAR_NEXT_def GET_PUT_same)

lemma PUT_PREV_const:
  "GET (PUT_PREV idx (\<lambda>m. dest) (\<lambda>m. p) m) dest = (GET m dest AND SPLIT) OR push_bit 32 (p - idx)"
  by (simp add: PUT_PREV_def PUT_PPTR_def CLEAR_PREV_def GET_PUT_same)

text \<open>
  Claim C9. For every link word (the 8 bytes at \<open>dest\<close>) and address \<open>p\<close> whose offset
  \<open>p - idx\<close> from the heap base is non-zero and below \<open>2\<^sup>3\<^sup>2\<close>: after \<^verbatim>\<open>PUT_NEXT(dest, p)\<close>,
  \<^verbatim>\<open>NEXTP\<close> of the word is \<open>p\<close> and its upper 32 bits are unchanged; after
  \<^verbatim>\<open>PUT_PREV(dest, p)\<close>, \<^verbatim>\<open>PREVP\<close> of the word is \<open>p\<close> and its lower 32 bits are unchanged; and
  a half whose 32 bits are all zero decodes to the null link.
\<close>

theorem pointer_packer:
  assumes "p - idx \<noteq> 0" "p - idx < 2 ^ 32"
  shows "NEXTP idx (GET (PUT_NEXT idx (\<lambda>m. dest) (\<lambda>m. p) m) dest) = p
       \<and> drop_bit 32 (GET (PUT_NEXT idx (\<lambda>m. dest) (\<lambda>m. p) m) dest) = drop_bit 32 (GET m dest)
       \<and> PREVP idx (GET (PUT_PREV idx (\<lambda>m. dest) (\<lambda>m. p) m) dest) = p
       \<and> take_bit 32 (GET (PUT_PREV idx (\<lambda>m. dest) (\<lambda>m. p) m) dest) = take_bit 32 (GET m dest)
       \<and> (\<forall>w. take_bit 32 w = 0 \<longrightarrow> NEXTP idx w = 0)
       \<and> (\<forall>w. drop_bit 32 w = 0 \<longrightarrow> PREVP idx w = 0)"
  unfolding PUT_NEXT_const PUT_PREV_const NEXTP_def PREVP_def SEE_NEXT_take SEE_PREV_drop
      take_put_next[OF assms(2)] drop_put_next[OF assms(2)] drop_put_prev[OF assms(2)] take_put_prev
  using assms(1) by simp

theorem pointer_packer_witness:
  "(0x1100 :: addr) - 0x1000 \<noteq> 0 \<and> (0x1100 :: addr) - 0x1000 < 2 ^ 32
   \<and> NEXTP 0x1000 (GET (PUT_NEXT 0x1000 (\<lambda>m. 0x2000) (\<lambda>m. 0x1100) (\<lambda>a. 0xFF)) 0x2000) = 0x1100
   \<and> drop_bit 32 (GET (PUT_NEXT 0x1000 (\<lambda>m. 0x2000) (\<lambda>m. 0x1100) (\<lambda>a. 0xFF)) 0x2000)
        = drop_bit 32 (GET (\<lambda>a. 0xFF) 0x2000)
   \<and> PREVP 0x1000 (GET (PUT_PREV 0x1000 (\<lambda>m. 0x2000) (\<lambda>m. 0x1100) (\<lambda>a. 0xFF)) 0x2000) = 0x1100
   \<and> take_bit 32 (GET (PUT_PREV 0x1000 (\<lambda>m. 0x2000) (\<lambda>m. 0x1100) (\<lambda>a. 0xFF)) 0x2000)
        = take_bit 32 (GET (\<lambda>a. 0xFF) 0x2000)
   \<and> NEXTP 0x1000 (push_bit 32 5) = 0
   \<and> PREVP 0x1000 5 = 0"
proof -
  have h1: "(0x1100 :: addr) - 0x1000 \<noteq> 0" by simp
  have h2: "(0x1100 :: addr) - 0x1000 < 2 ^ 32" by simp
  have z1: "take_bit 32 (push_bit 32 5 :: u64) = 0" by simp
  have z2: "drop_bit 32 (5 :: u64) = 0" by simp
  from pointer_packer[OF h1 h2, of "0x2000" "\<lambda>a. 0xFF"] z1 z2 h1 h2
  show ?thesis by blast
qed

section \<open>Properties of the size classes\<close>

lemma fsb_small: "asize < 64 \<Longrightarrow> find_size_bin_loop asize b = b"
  by (subst find_size_bin_loop.simps) simp

lemma fsb_range:
  "64 * 2 ^ k \<le> asize \<Longrightarrow> asize < 128 * 2 ^ k \<Longrightarrow> find_size_bin_loop asize b = b + k + 1"
proof (induction k arbitrary: asize b)
  case 0
  then show ?case by (subst find_size_bin_loop.simps) (simp add: fsb_small)
next
  case (Suc k)
  have "(128::int) \<le> 128 * 2 ^ k" by simp
  then have "63 < asize" using Suc.prems by (simp only: power_Suc)
  have "64 * 2 ^ k \<le> asize div 2" "asize div 2 < 128 * 2 ^ k" using Suc.prems by auto
  from Suc.IH[OF this] show ?case using \<open>63 < asize\<close>
    by (subst find_size_bin_loop.simps) (auto)
qed

text \<open>What the loop computes: sizes below 64 fall into list 0, and a size in
  \<open>[2\<^sup>6\<^sup>+\<^sup>k, 2\<^sup>7\<^sup>+\<^sup>k)\<close> into list \<open>k + 1\<close>, capped at 10.\<close>

lemma find_size_bin_small: "s < 64 \<Longrightarrow> find_size_bin s = 0"
  by (simp add: find_size_bin_def fsb_small NO_LISTS_def)

lemma find_size_bin_range:
  "2 ^ (6 + k) \<le> s \<Longrightarrow> s < 2 ^ (7 + k) \<Longrightarrow> find_size_bin s = min 10 (k + 1)"
  using fsb_range[of k s 0] by (simp add: find_size_bin_def NO_LISTS_def power_add)

text \<open>
  Claim C2 says that a block of size \<open>s\<close> belongs to list \<open>min(10, floor(log2 s) - 6)\<close>, so that
  list 0 starts at 64 bytes. At \<open>s = 64\<close> that is list 0; \<^verbatim>\<open>find_size_bin\<close> answers 1.
\<close>

theorem find_size_bin_64: "find_size_bin 64 = 1 \<and> find_size_bin 64 \<noteq> min 10 (6 - 6)"
  using find_size_bin_range[of 0 64] by simp

section \<open>Properties of the size adjustment\<close>

lemma seven: "(7::u64) = mask 3" by (simp add: mask_eq_exp_minus_1)

lemma unat_round8: "unat (push_bit 3 (drop_bit 3 (q::u64))) = unat q div 8 * 8"
proof -
  have "unat q div 8 * 8 \<le> unat q" by simp
  moreover have "unat q < 2 ^ 64" using unsigned_less[of q] by simp
  ultimately have lt: "unat q div 8 * 8 < 2 ^ 64" by linarith
  have "unat (push_bit 3 (drop_bit 3 q)) = take_bit LENGTH(64) (push_bit 3 (drop_bit 3 (unat q)))"
    unfolding unsigned_push_bit_eq unat_drop_bit_eq ..
  also have "\<dots> = (unat q div 8 * 8) mod 2 ^ 64"
    by (simp add: push_bit_eq_mult drop_bit_eq_div take_bit_eq_mod)
  also have "\<dots> = unat q div 8 * 8" using lt by (rule mod_less)
  finally show ?thesis .
qed

lemma ALIGN_round: "ALIGN p = push_bit 3 (drop_bit 3 (p + 7))"
  unfolding ALIGN_def seven by (rule bit_word_eqI) (auto simp add: bit_simps)

lemma ALIGN_unat: "unat (ALIGN p) = (unat (p + 7)) div 8 * 8"
  by (simp only: ALIGN_round unat_round8)

lemma round8_mod_gen:
  fixes x c d :: nat
  assumes c: "c = 8 * d"
  shows "((x mod (c * c)) div 8 * 8) mod c = (x div 8 * 8) mod c"
proof -
  define k r where "k = x div (c * c)" and "r = x mod (c * c)"
  have "x = r + k * (c * c)" unfolding k_def r_def by (rule mod_div_mult_eq[symmetric])
  also have "\<dots> = r + 8 * (k * d * c)" by (simp add: c)
  finally have "x div 8 = r div 8 + k * d * c" by simp
  then have "x div 8 * 8 = r div 8 * 8 + (k * c) * c" by (simp add: c)
  then have "(x div 8 * 8) mod c = (r div 8 * 8) mod c" by (simp only: mod_mult_self1)
  then show ?thesis by (simp only: r_def)
qed

lemma round8_mod: "((x::nat) mod 2 ^ 64 div 8 * 8) mod 2 ^ 32 = (x div 8 * 8) mod 2 ^ 32"
  using round8_mod_gen[of "2 ^ 32" "2 ^ 29" x] by simp

lemma unat_ucast_u32: "unat (ucast (w::u64) :: u32) = unat w mod 2 ^ 32"
  by (simp add: unsigned_ucast_eq take_bit_eq_mod)

lemma unat_plus_15: "unat ((n::u64) + 8 + 7) = (unat n + 15) mod 2 ^ 64"
proof -
  have e: "n + 8 + 7 = 15 + n" by simp
  have "unat (15 + n) = (unat (15::u64) + unat n) mod 2 ^ LENGTH(64)"
    by (rule unat_word_ariths(1))
  also have "unat (15::u64) + unat n = unat n + 15" by simp
  finally show ?thesis unfolding e by simp
qed

lemma adjust_size_large: "8 < n \<Longrightarrow> adjust_size n = ucast (ALIGN (n + 8))"
  using leD[of n 8] by (auto simp add: adjust_size_def WSIZE_def)

lemma adjust_size_unat:
  assumes "8 < n"
  shows "unat (adjust_size n) = ((unat n + 15) div 8 * 8) mod 2 ^ 32"
proof -
  have "unat (ucast (ALIGN (n + 8)) :: u32) = unat (ALIGN (n + 8)) mod 2 ^ 32"
    by (rule unat_ucast_u32)
  also have "\<dots> = (unat (n + 8 + 7) div 8 * 8) mod 2 ^ 32" by (simp only: ALIGN_unat)
  also have "\<dots> = ((unat n + 15) mod 2 ^ 64 div 8 * 8) mod 2 ^ 32" by (simp only: unat_plus_15)
  also have "\<dots> = ((unat n + 15) div 8 * 8) mod 2 ^ 32" by (rule round8_mod)
  finally show ?thesis by (simp only: adjust_size_large[OF assms])
qed

lemma adjust_size_2p32: "adjust_size (2 ^ 32) = 8"
  by (simp add: adjust_size_def WSIZE_def ALIGN_def)

lemma adjust_size_small: "0 < n \<Longrightarrow> n \<le> 8 \<Longrightarrow> adjust_size n = 16"
  by (simp add: adjust_size_def WSIZE_def)

lemma malloc_zero: "malloc 0 st = Some (0, st)"
  by (simp add: malloc_def)

lemma malloc_by_adjust_size:
  "0 < n \<Longrightarrow> 0 < n' \<Longrightarrow> adjust_size n' = adjust_size n \<Longrightarrow> malloc n' st = malloc n st"
  by (simp add: malloc_def word_neq_0_conv[symmetric])

section \<open>Runs on the initial arena\<close>

lemma mm_init_st0: "mm_init st0 = (0, st_init)"
  by (simp add: eval st0_def st_init_def split del: if_split cong: eval_cong)

lemma malloc_2p32_run:
  "map_option (\<lambda>(bp, s). (bp, GET_INT (mem s) (HDR bp), mem_brk s)) (malloc (2 ^ 32) st_init)
     = Some (4208, 9, 4464)"
  by (simp add: eval st_init_def split del: if_split cong: eval_cong)

lemma calloc_run: "map_option fst (calloc 1 8 st_init) = Some 0"
  by (simp add: eval st_init_def split del: if_split cong: eval_cong)

text \<open>
  Claim C10. For a request \<open>n > 8\<close> the block size \<^verbatim>\<open>malloc\<close> works with is
  \<open>align_up(n + 8, 8)\<close> modulo \<open>2\<^sup>3\<^sup>2\<close>, and \<^verbatim>\<open>malloc\<close> depends on the request only through that
  size. So \<^verbatim>\<open>malloc(2\<^sup>3\<^sup>2)\<close> works with 8: on the initial arena it returns the non-null address 4208
  of a block whose header word is \<open>9\<close> (size 8, allocated) and leaves the end of the arena where
  it was.
\<close>

theorem malloc_size_wraps:
  assumes "8 < n"
  shows "unat (adjust_size n) = ((unat n + 8 + 7) div 8 * 8) mod 2 ^ 32
       \<and> (\<forall>n'. 0 < n' \<and> adjust_size n' = adjust_size n \<longrightarrow> malloc n' st = malloc n st)
       \<and> adjust_size (2 ^ 32) = 8
       \<and> map_option (\<lambda>(bp, s). (bp, GET_INT (mem s) (HDR bp), mem_brk s)) (malloc (2 ^ 32) st_init)
           = Some (4208, 9, mem_brk st_init)"
proof -
  have "0 < n" using assms by (simp add: word_neq_0_conv[symmetric]) auto
  then have "\<forall>n'. 0 < n' \<and> adjust_size n' = adjust_size n \<longrightarrow> malloc n' st = malloc n st"
    using malloc_by_adjust_size by blast
  moreover have "mem_brk st_init = 4464" by (simp add: st_init_def)
  moreover have "unat n + 8 + 7 = unat n + 15" by simp
  then have "unat (adjust_size n) = ((unat n + 8 + 7) div 8 * 8) mod 2 ^ 32"
    using adjust_size_unat[OF assms] by (simp only:)
  ultimately show ?thesis
    using adjust_size_2p32 malloc_2p32_run by (simp only:)
qed

theorem malloc_size_wraps_witness:
  "(8::u64) < 2 ^ 32
   \<and> unat (adjust_size (2 ^ 32)) = ((unat (2 ^ 32 :: u64) + 8 + 7) div 8 * 8) mod 2 ^ 32
   \<and> malloc (2 ^ 32 - 1) st_init = malloc (2 ^ 32) st_init
   \<and> adjust_size (2 ^ 32) = 8
   \<and> map_option (\<lambda>(bp, s). (bp, GET_INT (mem s) (HDR bp), mem_brk s)) (malloc (2 ^ 32) st_init)
           = Some (4208, 9, mem_brk st_init)"
proof -
  have h: "(8::u64) < 2 ^ 32" by simp
  have a: "(0::u64) < 2 ^ 32 - 1 \<and> adjust_size (2 ^ 32 - 1) = adjust_size (2 ^ 32)"
    by (simp add: adjust_size_def WSIZE_def ALIGN_def)
  from malloc_size_wraps[OF h, of st_init] a h show ?thesis by blast
qed

text \<open>
  Claim C8 says that the block size \<^verbatim>\<open>malloc\<close> uses is at least 16 bytes in all cases. After
  \<^verbatim>\<open>mm_init\<close> on the fresh memory system, \<^verbatim>\<open>malloc(2\<^sup>3\<^sup>2)\<close> returns a non-null block whose size
  field is 8, below \<^verbatim>\<open>MIN_SIZE\<close>.
\<close>

theorem malloc_block_below_minimum:
  "fst (mm_init st0) = 0
   \<and> map_option (\<lambda>(bp, s). (bp \<noteq> 0, unat (GET_SIZE (mem s) (HDR bp))))
         (malloc (2 ^ 32) (snd (mm_init st0))) = Some (True, 8)
   \<and> unat (adjust_size (2 ^ 32)) < unat MIN_SIZE"
proof -
  have "map_option (\<lambda>(bp, s). (bp \<noteq> 0, unat (GET_SIZE (mem s) (HDR bp)))) (malloc (2 ^ 32) st_init)
          = Some (True, 8)"
    using malloc_2p32_run by (auto simp: GET_SIZE_def)
  then show ?thesis using adjust_size_2p32 by (simp add: mm_init_st0 MIN_SIZE_def)
qed

text \<open>
  Claim C1 says that \<^verbatim>\<open>calloc\<close> returns the non-null address of the zero-filled block.
  Whenever \<^verbatim>\<open>calloc\<close> returns, it returns \<^verbatim>\<open>NULL\<close>; so does \<^verbatim>\<open>calloc(1, 8)\<close> on the initial
  arena, where the allocation succeeds.
\<close>

theorem calloc_returns_null:
  "(calloc nmemb sz st = None \<or> (\<exists>st'. calloc nmemb sz st = Some (0, st')))
   \<and> map_option fst (calloc 1 8 (snd (mm_init st0))) = Some 0"
proof -
  have "calloc nmemb sz st = None \<or> (\<exists>st'. calloc nmemb sz st = Some (0, st'))"
    by (auto simp: calloc_def split: option.splits prod.splits)
  then show ?thesis by (simp add: mm_init_st0 calloc_run)
qed

end
